theory Spec2Isabelle
  imports Main
begin

section \<open>Landing page: the set of open review items\<close>

text \<open>
  \<^verbatim>\<open>LandingPage\<close> keeps \<^verbatim>\<open>openItems\<close>, a JavaScript \<^verbatim>\<open>Set<string>\<close>, in React state.
  A \<^verbatim>\<open>Set\<close> is a mutable object, so the model keeps the objects in a store: a reference is
  an index into the list of all \<^verbatim>\<open>Set\<close> objects allocated so far, and \<^verbatim>\<open>new Set(..)\<close>
  appends a fresh object. The component only ever asks for membership, so the contents of
  an object are a set of strings.
\<close>

type_synonym ref = nat

type_synonym store = "string set list"

text \<open>\<^verbatim>\<open>new Set(prev)\<close>: a fresh object holding a copy of the elements of \<^verbatim>\<open>prev\<close>.\<close>

definition new_Set :: "store \<Rightarrow> ref \<Rightarrow> ref \<times> store" where
  "new_Set h prev = (length h, h @ [h ! prev])"

text \<open>\<^verbatim>\<open>s.has(x)\<close>, \<^verbatim>\<open>s.delete(x)\<close> and \<^verbatim>\<open>s.add(x)\<close>; the last two mutate the object.\<close>

definition Set_has :: "store \<Rightarrow> ref \<Rightarrow> string \<Rightarrow> bool" where
  "Set_has h r x = (x \<in> h ! r)"

definition Set_delete :: "store \<Rightarrow> ref \<Rightarrow> string \<Rightarrow> store" where
  "Set_delete h r x = h[r := h ! r - {x}]"

definition Set_add :: "store \<Rightarrow> ref \<Rightarrow> string \<Rightarrow> store" where
  "Set_add h r x = h[r := insert x (h ! r)]"

text \<open>
  The state of the landing page: the store of \<^verbatim>\<open>Set\<close> objects and the reference that
  \<^verbatim>\<open>openItems\<close> holds. \<^verbatim>\<open>useState<Set<string>>(new Set())\<close> starts with one empty object.
\<close>

record landing =
  store :: store
  openItems :: ref

definition landing_init :: landing where
  "landing_init = \<lparr>store = [{}], openItems = 0\<rparr>"

text \<open>
  The updater that \<^verbatim>\<open>toggleItem\<close> hands to \<^verbatim>\<open>setOpenItems\<close>:
  \<^verbatim>\<open>prev => { const newSet = new Set(prev);
             if (newSet.has(id)) { newSet.delete(id); } else { newSet.add(id); }
             return newSet; }\<close>
\<close>

definition toggle_updater :: "string \<Rightarrow> ref \<Rightarrow> store \<Rightarrow> ref \<times> store" where
  "toggle_updater ident prev h =
     (case new_Set h prev of
        (newSet, h1) \<Rightarrow>
          if Set_has h1 newSet ident
          then (newSet, Set_delete h1 newSet ident)
          else (newSet, Set_add h1 newSet ident))"

text \<open>\<^verbatim>\<open>toggleItem(id)\<close>: React runs the updater on the current state and stores its result.\<close>

definition toggleItem :: "string \<Rightarrow> landing \<Rightarrow> landing" where
  "toggleItem ident s =
     (case toggle_updater ident (openItems s) (store s) of
        (r, h) \<Rightarrow> \<lparr>store = h, openItems = r\<rparr>)"

text \<open>\<^verbatim>\<open>const isOpen = openItems.has(item.id)\<close> in the render.\<close>

definition isOpen :: "landing \<Rightarrow> string \<Rightarrow> bool" where
  "isOpen s ident = Set_has (store s) (openItems s) ident"

section \<open>Demo screen: SDK entities and component state\<close>

text \<open>
  The SDK's entities are opaque to the demo screen, which reads identifiers and the
  initiator and receiver of a call only. A value that reaches the screen is told apart by
  \<^verbatim>\<open>instanceof\<close>: a user, a group, a call, a conversation, or none of these.
\<close>

record user =
  uid :: string
  userName :: string

record group =
  guid :: string
  groupName :: string

datatype item =
    User user
  | Group group
  | Call call
  | Conversation conversation
  | Other
and call =
    MkCall (getSessionId: string) (getCallInitiator: user) (getCallReceiver: item)
and conversation =
    MkConversation (getConversationWith: item)

text \<open>The four \<^verbatim>\<open>useState\<close> slots of \<^verbatim>\<open>ChatDemo\<close>; \<^verbatim>\<open>undefined\<close> is \<open>None\<close>.\<close>

record demo =
  selectedUser :: "user option"
  selectedGroup :: "group option"
  selectedCall :: "call option"
  outgoingCall :: "call option"

definition demo_init :: demo where
  "demo_init = \<lparr>selectedUser = None, selectedGroup = None, selectedCall = None,
                 outgoingCall = None\<rparr>"

text \<open>
  A handler changes the state through the setters only, and none of them reads the state.
  A handler is therefore the list of setter calls it makes, in the order it makes them;
  React applies them in that order.
\<close>

datatype setter =
    SetSelectedUser "user option"
  | SetSelectedGroup "group option"
  | SetSelectedCall "call option"
  | SetOutgoingCall "call option"

fun apply_setter :: "setter \<Rightarrow> demo \<Rightarrow> demo" where
  "apply_setter (SetSelectedUser v) s = s\<lparr>selectedUser := v\<rparr>"
| "apply_setter (SetSelectedGroup v) s = s\<lparr>selectedGroup := v\<rparr>"
| "apply_setter (SetSelectedCall v) s = s\<lparr>selectedCall := v\<rparr>"
| "apply_setter (SetOutgoingCall v) s = s\<lparr>outgoingCall := v\<rparr>"

definition run :: "setter list \<Rightarrow> demo \<Rightarrow> demo" where
  "run calls s = fold apply_setter calls s"

subsection \<open>The call-event subscription\<close>

text \<open>
  The object given to \<^verbatim>\<open>new CometChat.CallListener({..})\<close>: four callbacks, each the
  setter calls of its body. The body of \<^verbatim>\<open>onIncomingCallCancelled\<close> holds a comment only.
\<close>

record call_listener =
  onOutgoingCallAccepted :: "setter list"
  onOutgoingCallRejected :: "setter list"
  onIncomingCallCancelled :: "setter list"
  onCallEndedMessageReceived :: "setter list"

definition callListener :: call_listener where
  "callListener =
     \<lparr>onOutgoingCallAccepted = [SetOutgoingCall None],
      onOutgoingCallRejected = [SetOutgoingCall None],
      onIncomingCallCancelled = [],
      onCallEndedMessageReceived = [SetOutgoingCall None]\<rparr>"

datatype call_event =
    OutgoingCallAccepted
  | OutgoingCallRejected
  | IncomingCallCancelled
  | CallEndedMessageReceived

text \<open>The callback of a listener that the SDK invokes for an event.\<close>

fun handler :: "call_listener \<Rightarrow> call_event \<Rightarrow> setter list" where
  "handler l OutgoingCallAccepted = onOutgoingCallAccepted l"
| "handler l OutgoingCallRejected = onOutgoingCallRejected l"
| "handler l IncomingCallCancelled = onIncomingCallCancelled l"
| "handler l CallEndedMessageReceived = onCallEndedMessageReceived l"

text \<open>JavaScript's conversion of an integral number to a string, as \<^verbatim>\<open>"CALL_LISTENER_" + Date.now()\<close> does it.\<close>

fun decimal :: "nat \<Rightarrow> string" where
  "decimal n =
     (if n < 10 then [''0123456789'' ! n]
      else decimal (n div 10) @ [''0123456789'' ! (n mod 10)])"

declare decimal.simps [simp del]

definition number_to_string :: "int \<Rightarrow> string" where
  "number_to_string n = (if n < 0 then ''-'' @ decimal (nat (- n)) else decimal (nat n))"

text \<open>The calls that the screen makes into the SDK's listener registry.\<close>

datatype sdk_call =
    AddCallListener string call_listener
  | RemoveCallListener string

text \<open>
  The mount effect \<^verbatim>\<open>useEffect(() => {..}, [])\<close>, given the value of \<^verbatim>\<open>Date.now()\<close>. It
  yields the SDK calls of its body and the SDK calls of the cleanup function it returns;
  the cleanup closes over \<^verbatim>\<open>listenerID\<close>.
\<close>

definition mountEffect :: "int \<Rightarrow> sdk_call list \<times> sdk_call list" where
  "mountEffect now =
     (let listenerID = ''CALL_LISTENER_'' @ number_to_string now
      in ([AddCallListener listenerID callListener], [RemoveCallListener listenerID]))"

subsection \<open>Selecting an item\<close>

text \<open>
  A settled promise. A rejected promise whose chain has no \<^verbatim>\<open>catch\<close> runs no callback.
\<close>

datatype error = Error string | TypeError string

datatype 'a promise = Resolved 'a | Rejected error

text \<open>
  \<^verbatim>\<open>handleCallLogClick(call)\<close>, given what \<^verbatim>\<open>CometChat.getLoggedinUser()\<close> settles to
  (\<^verbatim>\<open>null\<close> is \<open>None\<close>).
\<close>

definition handleCallLogClick :: "call \<Rightarrow> user option promise \<Rightarrow> setter list" where
  "handleCallLogClick c session =
     (let callInitiator = getCallInitiator c;
          callReceiver = getCallReceiver c
      in case session of
           Rejected e \<Rightarrow> []
         | Resolved loggedInUser \<Rightarrow>
             (if (case loggedInUser of
                    None \<Rightarrow> False
                  | Some me \<Rightarrow> uid callInitiator = uid me)
              then (case callReceiver of
                      User u \<Rightarrow> [SetSelectedUser (Some u), SetSelectedGroup None]
                    | Group g \<Rightarrow> [SetSelectedUser None, SetSelectedGroup (Some g)]
                    | _ \<Rightarrow> [])
              else [SetSelectedUser (Some callInitiator), SetSelectedGroup None])
             @ [SetSelectedCall (Some c)])"

text \<open>
  The \<^verbatim>\<open>onSelectorItemClicked\<close> callback given to \<^verbatim>\<open>CometChatSelector\<close>. The session
  argument is used by the call-log branch only.
\<close>

definition onSelectorItemClicked :: "item \<Rightarrow> user option promise \<Rightarrow> setter list" where
  "onSelectorItemClicked activeItem session =
     (let item = (case activeItem of
                    Conversation cv \<Rightarrow> getConversationWith cv
                  | _ \<Rightarrow> activeItem)
      in case item of
           User u \<Rightarrow> [SetSelectedUser (Some u), SetSelectedCall None, SetSelectedGroup None]
         | Group g \<Rightarrow> [SetSelectedUser None, SetSelectedGroup (Some g), SetSelectedCall None]
         | Call c \<Rightarrow> handleCallLogClick c session
         | _ \<Rightarrow> [])"

subsection \<open>Rendering\<close>

text \<open>
  The elements of the rendered tree that depend on the state. \<open>MessagesWrapper\<close> is the
  conversation view (header, message list and composer, all given the user and the group
  slot), \<open>CallInfo\<close> the "Call selected from history" placeholder and \<open>SelectPrompt\<close> the
  "Select Conversation to start" text.
\<close>

datatype element =
    CometChatIncomingCall
  | CometChatOutgoingCall call
  | CometChatSelector
  | MessagesWrapper "user option" "group option"
  | CallInfo
  | SelectPrompt

definition render :: "demo \<Rightarrow> element list" where
  "render s =
     [CometChatIncomingCall]
     @ (case outgoingCall s of Some c \<Rightarrow> [CometChatOutgoingCall c] | None \<Rightarrow> [])
     @ [CometChatSelector]
     @ [if selectedUser s \<noteq> None \<or> selectedGroup s \<noteq> None
        then MessagesWrapper (selectedUser s) (selectedGroup s)
        else if selectedCall s \<noteq> None then CallInfo
        else SelectPrompt]"

fun is_view :: "element \<Rightarrow> bool" where
  "is_view (MessagesWrapper u g) = True"
| "is_view CallInfo = True"
| "is_view SelectPrompt = True"
| "is_view e = False"

subsection \<open>Reading the models\<close>

text \<open>\<^verbatim>\<open>x instanceof CometChat.User\<close> and \<^verbatim>\<open>x instanceof CometChat.Group\<close>.\<close>

fun instanceof_User :: "item \<Rightarrow> bool" where
  "instanceof_User (User u) = True"
| "instanceof_User x = False"

fun instanceof_Group :: "item \<Rightarrow> bool" where
  "instanceof_Group (Group g) = True"
| "instanceof_Group x = False"

text \<open>The listener identifiers that an SDK call registers, and those it deregisters.\<close>

fun added :: "sdk_call \<Rightarrow> string list" where
  "added (AddCallListener i l) = [i]"
| "added (RemoveCallListener i) = []"

fun removed :: "sdk_call \<Rightarrow> string list" where
  "removed (AddCallListener i l) = []"
| "removed (RemoveCallListener i) = [i]"

fun listener_of :: "sdk_call \<Rightarrow> call_listener list" where
  "listener_of (AddCallListener i l) = [l]"
| "listener_of (RemoveCallListener i) = []"

text \<open>
  The setter calls made when the SDK delivers an event to the listeners that the mount
  effect registered.
\<close>

definition on_event :: "int \<Rightarrow> call_event \<Rightarrow> setter list" where
  "on_event now ev =
     concat (map (\<lambda>l. handler l ev) (concat (map listener_of (fst (mountEffect now)))))"

text \<open>Sample entities for the concrete runs below.\<close>

abbreviation alice :: user where
  "alice \<equiv> \<lparr>uid = ''cometchat-uid-1'', userName = ''Alice''\<rparr>"

abbreviation bob :: user where
  "bob \<equiv> \<lparr>uid = ''cometchat-uid-2'', userName = ''Bob''\<rparr>"

abbreviation team :: group where
  "team \<equiv> \<lparr>guid = ''cometchat-guid-1'', groupName = ''Team''\<rparr>"

section \<open>Startup: initialise the SDK, find or create a session, mount\<close>

text \<open>
  What the environment does in one run of \<^verbatim>\<open>main.tsx\<close>: what each SDK promise settles
  to, and whether mounting throws. \<^verbatim>\<open>CometChatUIKit.init\<close> may return \<^verbatim>\<open>undefined\<close>
  instead of a promise (the source asserts that it does not, with \<^verbatim>\<open>!\<close>), which is
  \<open>None\<close> here; \<^verbatim>\<open>createRoot(document.getElementById('root')!).render(..)\<close> throws when
  \<open>render_throws\<close> holds an error.
\<close>

record environment =
  init_result :: "unit promise option"
  getLoggedinUser_result :: "user option promise"
  login_result :: "user promise"
  render_throws :: "error option"

text \<open>What can be written to the console, and what a run leaves behind.\<close>

datatype arg = Str string | Err error | UserObj user

datatype console_entry = ConsoleLog "arg list" | ConsoleError "arg list"

record page =
  console :: "console_entry list"
  mounted :: bool
  unhandled :: "error list"

definition page_init :: page where
  "page_init = \<lparr>console = [], mounted = False, unhandled = []\<rparr>"

definition write_console :: "console_entry \<Rightarrow> page \<Rightarrow> page" where
  "write_console e p = p\<lparr>console := console p @ [e]\<rparr>"

definition reject_unhandled :: "error \<Rightarrow> page \<Rightarrow> page" where
  "reject_unhandled e p = p\<lparr>unhandled := unhandled p @ [e]\<rparr>"

text \<open>
  \<^verbatim>\<open>createRoot(..).render(<StrictMode><App /></StrictMode>)\<close>: the page afterwards, and
  the error if it threw.
\<close>

definition mountApp :: "environment \<Rightarrow> page \<Rightarrow> page \<times> error option" where
  "mountApp env p =
     (case render_throws env of
        None \<Rightarrow> (p\<lparr>mounted := True\<rparr>, None)
      | Some e \<Rightarrow> (p, Some e))"

text \<open>
  \<^verbatim>\<open>CometChatUIKit.login(UID).then((user) => {..}).catch(console.log)\<close>: the
  \<^verbatim>\<open>catch\<close> receives a rejection of the login and an exception of the callback alike.
\<close>

definition loginAndMount :: "environment \<Rightarrow> page \<Rightarrow> page" where
  "loginAndMount env p =
     (case login_result env of
        Rejected e \<Rightarrow> write_console (ConsoleLog [Err e]) p
      | Resolved u \<Rightarrow>
          (case mountApp env
                  (write_console (ConsoleLog [Str ''Login Successful:'', UserObj u]) p) of
             (p1, None) \<Rightarrow> p1
           | (p1, Some e) \<Rightarrow> write_console (ConsoleLog [Err e]) p1))"

text \<open>
  \<^verbatim>\<open>CometChatUIKit.getLoggedinUser().then((user) => { if (!user) {..} else {..} })\<close>.
  The chain has no \<^verbatim>\<open>catch\<close> and the enclosing callback does not return it, so a
  rejection of the lookup, or an exception of the callback, reaches no handler.
\<close>

definition checkSession :: "environment \<Rightarrow> page \<Rightarrow> page" where
  "checkSession env p =
     (case getLoggedinUser_result env of
        Rejected e \<Rightarrow> reject_unhandled e p
      | Resolved None \<Rightarrow> loginAndMount env p
      | Resolved (Some u) \<Rightarrow>
          (case mountApp env p of
             (p1, None) \<Rightarrow> p1
           | (p1, Some e) \<Rightarrow> reject_unhandled e p1))"

text \<open>\<^verbatim>\<open>CometChatUIKit.init(UIKitSettings)!.then(() => {..}).catch((error) => {..})\<close>.\<close>

definition startup :: "environment \<Rightarrow> page" where
  "startup env =
     (case init_result env of
        None \<Rightarrow>
          reject_unhandled (TypeError ''Cannot read properties of undefined'') page_init
      | Some (Rejected e) \<Rightarrow>
          write_console
            (ConsoleError [Str ''CometChat UI Kit initialization failed:'', Err e]) page_init
      | Some (Resolved x) \<Rightarrow>
          checkSession env
            (write_console
               (ConsoleLog [Str ''CometChat UI Kit initialized successfully.'']) page_init))"

text \<open>The errors that a run wrote to the console, through either channel.\<close>

fun logged_errors :: "console_entry \<Rightarrow> error list" where
  "logged_errors (ConsoleLog as) = concat (map (\<lambda>a. case a of Err e \<Rightarrow> [e] | _ \<Rightarrow> []) as)"
| "logged_errors (ConsoleError as) = concat (map (\<lambda>a. case a of Err e \<Rightarrow> [e] | _ \<Rightarrow> []) as)"

definition is_logged :: "error \<Rightarrow> page \<Rightarrow> bool" where
  "is_logged e p = (e \<in> set (concat (map logged_errors (console p))))"

section \<open>Properties of the landing page\<close>

lemma toggleItem_openItems: "openItems (toggleItem x s) = length (store s)"
  by (simp add: toggleItem_def toggle_updater_def new_Set_def Set_has_def)

lemma toggleItem_length: "length (store (toggleItem x s)) = Suc (length (store s))"
  by (simp add: toggleItem_def toggle_updater_def new_Set_def Set_has_def
      Set_delete_def Set_add_def)

lemma toggleItem_old_objects:
  "take (length (store s)) (store (toggleItem x s)) = store s"
  by (simp add: toggleItem_def toggle_updater_def new_Set_def Set_has_def
      Set_delete_def Set_add_def)

lemma isOpen_toggleItem:
  "isOpen (toggleItem x s) y = (if y = x then \<not> isOpen s x else isOpen s y)"
  by (simp add: isOpen_def toggleItem_def toggle_updater_def new_Set_def Set_has_def
      Set_delete_def Set_add_def)

text \<open>
  C6. An item that is closed (its identifier is not in the open-items set) is closed again
  after \<^verbatim>\<open>toggleItem\<close> has been applied to it twice.
\<close>

theorem toggleItem_twice_closed:
  "\<not> isOpen s x \<Longrightarrow> \<not> isOpen (toggleItem x (toggleItem x s)) x"
  by (simp add: isOpen_toggleItem)

theorem toggleItem_twice_closed_witness:
  "\<not> isOpen landing_init ''good-1''
   \<and> isOpen (toggleItem ''good-1'' landing_init) ''good-1''
   \<and> \<not> isOpen (toggleItem ''good-1'' (toggleItem ''good-1'' landing_init)) ''good-1''"
proof -
  have closed: "\<not> isOpen landing_init ''good-1''"
    by (simp add: isOpen_def landing_init_def Set_has_def)
  have opened: "isOpen (toggleItem ''good-1'' landing_init) ''good-1''"
    by (simp add: isOpen_def landing_init_def toggleItem_def toggle_updater_def
        new_Set_def Set_has_def Set_add_def Set_delete_def)
  from closed opened toggleItem_twice_closed [OF closed] show ?thesis by simp
qed

text \<open>
  C8. Toggling \<^verbatim>\<open>id\<close> changes the membership of no other identifier, and it mutates no
  object that existed before: the result is a new object, and every object already in the
  store (the original set among them) has the contents it had.
\<close>

theorem toggleItem_frame:
  "openItems s < length (store s) \<Longrightarrow> y \<noteq> x \<Longrightarrow>
     isOpen (toggleItem x s) y = isOpen s y
     \<and> openItems (toggleItem x s) \<noteq> openItems s
     \<and> store (toggleItem x s) ! openItems s = store s ! openItems s
     \<and> take (length (store s)) (store (toggleItem x s)) = store s"
proof -
  assume valid: "openItems s < length (store s)" and other: "y \<noteq> x"
  have "store (toggleItem x s) ! openItems s
          = take (length (store s)) (store (toggleItem x s)) ! openItems s"
    using valid by simp
  then have same: "store (toggleItem x s) ! openItems s = store s ! openItems s"
    by (simp add: toggleItem_old_objects)
  from valid have fresh: "openItems (toggleItem x s) \<noteq> openItems s"
    by (simp add: toggleItem_openItems)
  from other have "isOpen (toggleItem x s) y = isOpen s y"
    by (simp add: isOpen_toggleItem)
  with fresh same show ?thesis
    by (simp add: toggleItem_old_objects)
qed

theorem toggleItem_frame_witness:
  "openItems landing_init < length (store landing_init) \<and> ''good-2'' \<noteq> ''good-1''
   \<and> isOpen (toggleItem ''good-1'' landing_init) ''good-2'' = isOpen landing_init ''good-2''
   \<and> openItems (toggleItem ''good-1'' landing_init) = 1
   \<and> store (toggleItem ''good-1'' landing_init) ! 0 = {}"
proof -
  have valid: "openItems landing_init < length (store landing_init)"
    by (simp add: landing_init_def)
  have other: "''good-2'' \<noteq> ''good-1''" by simp
  have new: "openItems (toggleItem ''good-1'' landing_init) = 1"
    by (simp add: toggleItem_openItems landing_init_def)
  have old: "store landing_init ! openItems landing_init = {}"
    by (simp add: landing_init_def)
  have zero: "openItems landing_init = 0"
    by (simp add: landing_init_def)
  from toggleItem_frame [OF valid other] new old zero show ?thesis
    using valid by simp
qed

section \<open>Properties of the demo screen\<close>

lemma on_event_callListener: "on_event now ev = handler callListener ev"
  by (simp add: on_event_def mountEffect_def Let_def)

text \<open>
  C1, as amended. For each of the three events outgoing call accepted, outgoing call
  rejected and call ended, the installed handler makes the single call
  \<^verbatim>\<open>setOutgoingCall(undefined)\<close>, so the outgoing-call slot is empty afterwards. The
  handler for incoming call cancelled makes no setter call and leaves the state as it is.
\<close>

theorem call_events_clear_outgoing:
  "on_event now OutgoingCallAccepted = [SetOutgoingCall None]
   \<and> on_event now OutgoingCallRejected = [SetOutgoingCall None]
   \<and> on_event now CallEndedMessageReceived = [SetOutgoingCall None]
   \<and> on_event now IncomingCallCancelled = []
   \<and> outgoingCall (run (on_event now OutgoingCallAccepted) s) = None
   \<and> outgoingCall (run (on_event now OutgoingCallRejected) s) = None
   \<and> outgoingCall (run (on_event now CallEndedMessageReceived) s) = None
   \<and> run (on_event now IncomingCallCancelled) s = s"
  by (simp add: on_event_callListener callListener_def run_def)

text \<open>
  The claim as first stated fails for the fourth event: with an outgoing call in the slot,
  the handler for incoming call cancelled leaves it there.
\<close>

theorem incoming_cancelled_keeps_outgoing:
  "on_event 0 IncomingCallCancelled = []
   \<and> outgoingCall
        (run (on_event 0 IncomingCallCancelled)
           \<lparr>selectedUser = None, selectedGroup = None, selectedCall = None,
            outgoingCall = Some (MkCall ''session-1'' alice (User bob))\<rparr>)
      = Some (MkCall ''session-1'' alice (User bob))"
  by (simp add: on_event_callListener callListener_def run_def)

text \<open>
  C2. A call-log entry is clicked, which runs \<^verbatim>\<open>handleCallLogClick\<close> on it, and the
  session lookup yields a user. If the initiator's
  identifier equals that user's, a receiver that is a user goes to the user slot and the
  group slot is cleared, a receiver that is a group goes to the group slot and the user
  slot is cleared. If the identifiers differ, the initiator goes to the user slot and the
  group slot is cleared. In each case the call slot is set to the clicked call last.
\<close>

theorem handleCallLogClick_session:
  "onSelectorItemClicked (Call c) (Resolved (Some me))
     = handleCallLogClick c (Resolved (Some me))
   \<and> (uid (getCallInitiator c) = uid me \<and> getCallReceiver c = User r \<longrightarrow>
      handleCallLogClick c (Resolved (Some me))
        = [SetSelectedUser (Some r), SetSelectedGroup None, SetSelectedCall (Some c)]
      \<and> run (handleCallLogClick c (Resolved (Some me))) s
        = s\<lparr>selectedUser := Some r, selectedGroup := None, selectedCall := Some c\<rparr>)
   \<and> (uid (getCallInitiator c) = uid me \<and> getCallReceiver c = Group g \<longrightarrow>
      handleCallLogClick c (Resolved (Some me))
        = [SetSelectedUser None, SetSelectedGroup (Some g), SetSelectedCall (Some c)]
      \<and> run (handleCallLogClick c (Resolved (Some me))) s
        = s\<lparr>selectedUser := None, selectedGroup := Some g, selectedCall := Some c\<rparr>)
   \<and> (uid (getCallInitiator c) \<noteq> uid me \<longrightarrow>
      handleCallLogClick c (Resolved (Some me))
        = [SetSelectedUser (Some (getCallInitiator c)), SetSelectedGroup None,
           SetSelectedCall (Some c)]
      \<and> run (handleCallLogClick c (Resolved (Some me))) s
        = s\<lparr>selectedUser := Some (getCallInitiator c), selectedGroup := None,
            selectedCall := Some c\<rparr>)"
  by (simp add: onSelectorItemClicked_def handleCallLogClick_def run_def)

theorem handleCallLogClick_session_witness:
  "uid (getCallInitiator (MkCall ''s1'' alice (User bob))) = uid alice
   \<and> handleCallLogClick (MkCall ''s1'' alice (User bob)) (Resolved (Some alice))
       = [SetSelectedUser (Some bob), SetSelectedGroup None,
          SetSelectedCall (Some (MkCall ''s1'' alice (User bob)))]
   \<and> uid (getCallInitiator (MkCall ''s2'' alice (Group team))) = uid alice
   \<and> handleCallLogClick (MkCall ''s2'' alice (Group team)) (Resolved (Some alice))
       = [SetSelectedUser None, SetSelectedGroup (Some team),
          SetSelectedCall (Some (MkCall ''s2'' alice (Group team)))]
   \<and> uid (getCallInitiator (MkCall ''s3'' bob (Group team))) \<noteq> uid alice
   \<and> handleCallLogClick (MkCall ''s3'' bob (Group team)) (Resolved (Some alice))
       = [SetSelectedUser (Some bob), SetSelectedGroup None,
          SetSelectedCall (Some (MkCall ''s3'' bob (Group team)))]"
proof -
  let ?c1 = "MkCall ''s1'' alice (User bob)"
  let ?c2 = "MkCall ''s2'' alice (Group team)"
  let ?c3 = "MkCall ''s3'' bob (Group team)"
  have h1: "uid (getCallInitiator ?c1) = uid alice \<and> getCallReceiver ?c1 = User bob"
    by simp
  have h2: "uid (getCallInitiator ?c2) = uid alice \<and> getCallReceiver ?c2 = Group team"
    by simp
  have h3: "uid (getCallInitiator ?c3) \<noteq> uid alice"
    by simp
  from h1 handleCallLogClick_session [where c = ?c1 and me = alice and r = bob]
  have r1: "handleCallLogClick ?c1 (Resolved (Some alice))
      = [SetSelectedUser (Some bob), SetSelectedGroup None, SetSelectedCall (Some ?c1)]"
    by blast
  from h2 handleCallLogClick_session [where c = ?c2 and me = alice and g = team]
  have r2: "handleCallLogClick ?c2 (Resolved (Some alice))
      = [SetSelectedUser None, SetSelectedGroup (Some team), SetSelectedCall (Some ?c2)]"
    by blast
  from h3 handleCallLogClick_session [where c = ?c3 and me = alice]
  have "handleCallLogClick ?c3 (Resolved (Some alice))
      = [SetSelectedUser (Some (getCallInitiator ?c3)), SetSelectedGroup None,
         SetSelectedCall (Some ?c3)]"
    by blast
  then have r3: "handleCallLogClick ?c3 (Resolved (Some alice))
      = [SetSelectedUser (Some bob), SetSelectedGroup None, SetSelectedCall (Some ?c3)]"
    by simp
  from h1 h2 h3 r1 r2 r3 show ?thesis by blast
qed

text \<open>
  C3. Whatever the slots hold, selecting a user (directly or as the other party of a
  conversation) sets the user slot to it and clears the group slot and the call slot;
  selecting a group sets the group slot to it and clears the user slot and the call slot.
\<close>

theorem onSelectorItemClicked_user_group:
  "run (onSelectorItemClicked (User u) session) s
     = s\<lparr>selectedUser := Some u, selectedGroup := None, selectedCall := None\<rparr>
   \<and> run (onSelectorItemClicked (Conversation (MkConversation (User u))) session) s
     = s\<lparr>selectedUser := Some u, selectedGroup := None, selectedCall := None\<rparr>
   \<and> run (onSelectorItemClicked (Group g) session) s
     = s\<lparr>selectedUser := None, selectedGroup := Some g, selectedCall := None\<rparr>
   \<and> run (onSelectorItemClicked (Conversation (MkConversation (Group g))) session) s
     = s\<lparr>selectedUser := None, selectedGroup := Some g, selectedCall := None\<rparr>"
  by (simp add: onSelectorItemClicked_def run_def)

text \<open>
  C5. For every state the render holds exactly one of the three views. It is the
  conversation view exactly when the user slot or the group slot is populated, the call
  placeholder exactly when the call slot is populated and the other two are empty, and the
  prompt exactly when all three are empty.
\<close>

theorem render_one_view:
  "length (filter is_view (render s)) = 1
   \<and> (filter is_view (render s) = [MessagesWrapper (selectedUser s) (selectedGroup s)])
       = (selectedUser s \<noteq> None \<or> selectedGroup s \<noteq> None)
   \<and> (CallInfo \<in> set (render s))
       = (selectedCall s \<noteq> None \<and> selectedUser s = None \<and> selectedGroup s = None)
   \<and> (SelectPrompt \<in> set (render s))
       = (selectedCall s = None \<and> selectedUser s = None \<and> selectedGroup s = None)"
proof -
  have one: "length (filter is_view (render s)) = 1"
    by (simp add: render_def split: option.splits)
  have conv: "(filter is_view (render s) = [MessagesWrapper (selectedUser s) (selectedGroup s)])
       = (selectedUser s \<noteq> None \<or> selectedGroup s \<noteq> None)"
    by (simp add: render_def split: option.splits)
  have info: "(CallInfo \<in> set (render s))
       = (selectedCall s \<noteq> None \<and> selectedUser s = None \<and> selectedGroup s = None)"
    by (auto simp add: render_def split: option.splits)
  have prompt: "(SelectPrompt \<in> set (render s))
       = (selectedCall s = None \<and> selectedUser s = None \<and> selectedGroup s = None)"
    by (auto simp add: render_def split: option.splits)
  from one conv info prompt show ?thesis by blast
qed

theorem render_one_view_witness:
  "filter is_view
     (render (demo_init\<lparr>selectedUser := Some bob,
                        selectedCall := Some (MkCall ''s1'' alice (User bob))\<rparr>))
     = [MessagesWrapper (Some bob) None]
   \<and> CallInfo \<in> set (render (demo_init\<lparr>selectedCall := Some (MkCall ''s1'' alice (User bob))\<rparr>))
   \<and> SelectPrompt \<in> set (render demo_init)
   \<and> length (filter is_view (render demo_init)) = 1"
  using
    render_one_view
      [of "demo_init\<lparr>selectedUser := Some bob,
                      selectedCall := Some (MkCall ''s1'' alice (User bob))\<rparr>"]
    render_one_view [of "demo_init\<lparr>selectedCall := Some (MkCall ''s1'' alice (User bob))\<rparr>"]
    render_one_view [of demo_init]
  by (simp add: demo_init_def)

text \<open>
  C7. The mount effect registers exactly one call listener and deregisters none; the
  cleanup function it returns registers none and deregisters exactly the identifier that
  the effect registered.
\<close>

theorem mountEffect_listener_paired:
  "length (concat (map added (fst (mountEffect now)))) = 1
   \<and> concat (map removed (fst (mountEffect now))) = []
   \<and> concat (map removed (snd (mountEffect now))) = concat (map added (fst (mountEffect now)))
   \<and> concat (map added (snd (mountEffect now))) = []"
  by (simp add: mountEffect_def Let_def)

text \<open>
  C9. When the session lookup yields no user, the click puts the call's initiator in the
  user slot, clears the group slot and then sets the call slot to the clicked call,
  whatever the receiver is; this is what a user with another identifier gives.
\<close>

theorem handleCallLogClick_no_session:
  "handleCallLogClick c (Resolved None)
     = [SetSelectedUser (Some (getCallInitiator c)), SetSelectedGroup None,
        SetSelectedCall (Some c)]
   \<and> run (handleCallLogClick c (Resolved None)) s
     = s\<lparr>selectedUser := Some (getCallInitiator c), selectedGroup := None,
         selectedCall := Some c\<rparr>
   \<and> (uid (getCallInitiator c) \<noteq> uid me \<longrightarrow>
        handleCallLogClick c (Resolved None) = handleCallLogClick c (Resolved (Some me)))"
  by (simp add: handleCallLogClick_def run_def)

theorem handleCallLogClick_no_session_witness:
  "uid (getCallInitiator (MkCall ''s2'' alice (Group team))) \<noteq> uid bob
   \<and> handleCallLogClick (MkCall ''s2'' alice (Group team)) (Resolved None)
       = handleCallLogClick (MkCall ''s2'' alice (Group team)) (Resolved (Some bob))
   \<and> handleCallLogClick (MkCall ''s2'' alice (Group team)) (Resolved None)
       = [SetSelectedUser (Some alice), SetSelectedGroup None,
          SetSelectedCall (Some (MkCall ''s2'' alice (Group team)))]"
proof -
  let ?c = "MkCall ''s2'' alice (Group team)"
  have differ: "uid (getCallInitiator ?c) \<noteq> uid bob"
    by simp
  from differ handleCallLogClick_no_session [where c = ?c and me = bob]
  have same: "handleCallLogClick ?c (Resolved None) = handleCallLogClick ?c (Resolved (Some bob))"
    by blast
  from handleCallLogClick_no_session [where c = ?c]
  have "handleCallLogClick ?c (Resolved None)
      = [SetSelectedUser (Some (getCallInitiator ?c)), SetSelectedGroup None,
         SetSelectedCall (Some ?c)]"
    by blast
  then have calls: "handleCallLogClick ?c (Resolved None)
      = [SetSelectedUser (Some alice), SetSelectedGroup None, SetSelectedCall (Some ?c)]"
    by simp
  from differ same calls show ?thesis by blast
qed

text \<open>
  C10. When the initiator's identifier equals the logged-in user's and the receiver is
  neither a user nor a group, the click makes the single call that sets the call slot: the
  user slot and the group slot keep what they held.
\<close>

theorem handleCallLogClick_other_receiver:
  "uid (getCallInitiator c) = uid me \<Longrightarrow>
   \<not> instanceof_User (getCallReceiver c) \<Longrightarrow>
   \<not> instanceof_Group (getCallReceiver c) \<Longrightarrow>
     handleCallLogClick c (Resolved (Some me)) = [SetSelectedCall (Some c)]
     \<and> selectedUser (run (handleCallLogClick c (Resolved (Some me))) s) = selectedUser s
     \<and> selectedGroup (run (handleCallLogClick c (Resolved (Some me))) s) = selectedGroup s
     \<and> selectedCall (run (handleCallLogClick c (Resolved (Some me))) s) = Some c"
  by (cases "getCallReceiver c") (simp_all add: handleCallLogClick_def run_def)

theorem handleCallLogClick_other_receiver_witness:
  "selectedUser
     (run (handleCallLogClick (MkCall ''s4'' alice Other) (Resolved (Some alice)))
        (demo_init\<lparr>selectedGroup := Some team\<rparr>)) = None
   \<and> selectedGroup
       (run (handleCallLogClick (MkCall ''s4'' alice Other) (Resolved (Some alice)))
          (demo_init\<lparr>selectedGroup := Some team\<rparr>)) = Some team
   \<and> selectedCall
       (run (handleCallLogClick (MkCall ''s4'' alice Other) (Resolved (Some alice)))
          (demo_init\<lparr>selectedGroup := Some team\<rparr>)) = Some (MkCall ''s4'' alice Other)"
proof -
  let ?c = "MkCall ''s4'' alice Other"
  let ?s = "demo_init\<lparr>selectedGroup := Some team\<rparr>"
  let ?s' = "run (handleCallLogClick ?c (Resolved (Some alice))) ?s"
  have same: "uid (getCallInitiator ?c) = uid alice"
    by simp
  have no_user: "\<not> instanceof_User (getCallReceiver ?c)"
    by simp
  have no_group: "\<not> instanceof_Group (getCallReceiver ?c)"
    by simp
  note kept = handleCallLogClick_other_receiver [OF same no_user no_group, of ?s]
  from kept have u: "selectedUser ?s' = selectedUser ?s" by blast
  from kept have g: "selectedGroup ?s' = selectedGroup ?s" by blast
  from kept have c: "selectedCall ?s' = Some ?c" by blast
  have before: "selectedUser ?s = None \<and> selectedGroup ?s = Some team"
    by (simp add: demo_init_def)
  from u g c before show ?thesis by simp
qed

section \<open>Properties of the startup\<close>

lemmas startup_defs =
  startup_def checkSession_def loginAndMount_def mountApp_def write_console_def
  reject_unhandled_def page_init_def

text \<open>The application is mounted exactly when every step taken succeeds.\<close>

lemma mounted_startup:
  "mounted (startup env) =
     (init_result env = Some (Resolved ()) \<and> render_throws env = None \<and>
      (case getLoggedinUser_result env of
         Rejected e \<Rightarrow> False
       | Resolved None \<Rightarrow> (case login_result env of Resolved u \<Rightarrow> True | Rejected e \<Rightarrow> False)
       | Resolved (Some u) \<Rightarrow> True))"
  by (auto simp add: startup_defs split: option.splits promise.splits)

text \<open>A rejection of the initialisation or of the login is logged, and nothing is mounted.\<close>

lemma init_failure_logged:
  "init_result env = Some (Rejected e) \<Longrightarrow>
     is_logged e (startup env) \<and> \<not> mounted (startup env)"
  by (simp add: startup_defs is_logged_def)

lemma login_failure_logged:
  "init_result env = Some (Resolved ()) \<Longrightarrow> getLoggedinUser_result env = Resolved None \<Longrightarrow>
   login_result env = Rejected e \<Longrightarrow>
     is_logged e (startup env) \<and> \<not> mounted (startup env)"
  by (simp add: startup_defs is_logged_def)

text \<open>A rejection of the session lookup reaches no handler: nothing is mounted, nothing is logged.\<close>

lemma session_failure_unhandled:
  "init_result env = Some (Resolved ()) \<Longrightarrow> getLoggedinUser_result env = Rejected e \<Longrightarrow>
     \<not> is_logged e (startup env) \<and> \<not> mounted (startup env) \<and> unhandled (startup env) = [e]"
  by (simp add: startup_defs is_logged_def)

text \<open>
  C4. The claim asks that a rejection at any of the three steps be logged and leave the
  application unmounted. In the run below the initialisation succeeds and the session
  lookup rejects: the application is not mounted, but the console holds the success
  message of the initialisation only, and the rejection is left unhandled.
\<close>

theorem startup_session_failure_unlogged:
  "startup \<lparr>init_result = Some (Resolved ()),
            getLoggedinUser_result = Rejected (Error ''session lookup failed''),
            login_result = Resolved alice,
            render_throws = None\<rparr>
     = \<lparr>console = [ConsoleLog [Str ''CometChat UI Kit initialized successfully.'']],
        mounted = False,
        unhandled = [Error ''session lookup failed'']\<rparr>
   \<and> \<not> is_logged (Error ''session lookup failed'')
         (startup \<lparr>init_result = Some (Resolved ()),
                   getLoggedinUser_result = Rejected (Error ''session lookup failed''),
                   login_result = Resolved alice,
                   render_throws = None\<rparr>)"
  by (simp add: startup_def checkSession_def write_console_def reject_unhandled_def
      page_init_def is_logged_def)

end
